theory Spec2Isabelle
  imports Main
begin

section \<open>Values exchanged with the collaborators\<close>

text \<open>
  The value a promise is rejected with. The handlers only ever render it as text, so a
  reason is either an \<open>Error\<close> instance, given by its \<open>name\<close> and its \<open>message\<close>, or any
  other thrown value, given by the text \<open>String(value)\<close> yields for it.
\<close>

datatype reason = ErrorObject string string | Thrown string

text \<open>
  \<open>String(reason)\<close>, which is also what a template literal \<open>`${reason}`\<close> inserts. For an
  \<open>Error\<close> this is \<open>Error.prototype.toString\<close>.
\<close>

fun String_of :: "reason \<Rightarrow> string" where
  "String_of (ErrorObject name msg) =
     (if name = [] then msg else if msg = [] then name else name @ '': '' @ msg)"
| "String_of (Thrown s) = s"

text \<open>\<open>reason instanceof Error ? reason.message : String(reason)\<close>\<close>

fun errorMessage_of :: "reason \<Rightarrow> string" where
  "errorMessage_of (ErrorObject name msg) = msg"
| "errorMessage_of (Thrown s) = String_of (Thrown s)"

text \<open>
  \<open>PromiseSettledResult\<close>: \<open>{status: 'fulfilled', value}\<close> or \<open>{status: 'rejected', reason}\<close>.
  The same type describes how an awaited promise ends.
\<close>

datatype 'v settled = Fulfilled 'v | Rejected reason

text \<open>
  JSON documents. The data a provider returns (\<open>WeatherDTO\<close>, \<open>AirQualityDTO\<close>,
  \<open>SunTimeDTO\<close>) is opaque to the handlers and stays a parameter \<open>'v\<close>; \<open>Val\<close> embeds
  it. An object is the list of its properties in insertion order.
\<close>

datatype 'v json =
    Null
  | Str string
  | Arr "'v json list"
  | Obj "(string \<times> 'v json) list"
  | Val 'v

text \<open>\<open>object[key] = value\<close>: an existing property keeps its place, a new one goes last.\<close>

fun assign :: "string \<Rightarrow> 'v json \<Rightarrow> (string \<times> 'v json) list \<Rightarrow> (string \<times> 'v json) list" where
  "assign key v [] = [(key, v)]"
| "assign key v ((k, w) # props) =
     (if k = key then (k, v) # props else (k, w) # assign key v props)"

text \<open>
  The text \<open>JSON.stringify\<close> produces for a document. Serialisation itself is not
  unfolded: a body is identified by the document it was produced from.
\<close>

datatype 'v json_text = JSON_stringify "'v json"

text \<open>
  Modelled from the spec: the constants of \<open>@/common/constants/http-status\<close>, which is
  not among the sources; the spec gives the three status codes as 200, 400 and 500.
\<close>

definition HttpStatus_OK :: nat where
  "HttpStatus_OK = 200"

definition HttpStatus_BAD_REQUEST :: nat where
  "HttpStatus_BAD_REQUEST = 400"

definition HttpStatus_INTERNAL_SERVER_ERROR :: nat where
  "HttpStatus_INTERNAL_SERVER_ERROR = 500"

section \<open>Collaborators and effects\<close>

record 'n coordinates =
  lat :: 'n
  lng :: 'n

text \<open>
  The four imported asynchronous functions. Each is given by the way the promise it
  returns ends for the arguments it is called with; every promise ends.
\<close>

record ('n, 'v) collaborators =
  getCoordinatesByTrailName :: "string \<Rightarrow> ('n coordinates) settled"
  getWeatherAlert :: "'n \<Rightarrow> 'n \<Rightarrow> 'v settled"
  getAirQuality :: "'n \<Rightarrow> 'n \<Rightarrow> 'v settled"
  getSunTimes :: "'n \<Rightarrow> 'n \<Rightarrow> 'v settled"

text \<open>
  What a handler does besides returning: the calls it issues and the lines it logs, in
  program order. The elapsed time printed after \<open>'Execution times:'\<close> is left out.
\<close>

datatype 'n effect =
    Call_getCoordinatesByTrailName string
  | Call_getWeatherAlert 'n 'n
  | Call_getAirQuality 'n 'n
  | Call_getSunTimes 'n 'n
  | Console_log string
  | Console_error string reason

text \<open>How the run of an asynchronous function ends.\<close>

datatype 'r completion = Returned 'r | Threw reason | Pending

section \<open>\<open>Promise.allSettled\<close>\<close>

text \<open>
  The order in which \<open>n\<close> promises settle, read off a schedule \<open>order\<close>: the promises it
  lists settle in that order (an entry that is repeated or names no promise is skipped),
  the remaining ones afterwards.
\<close>

definition settle_sequence :: "nat \<Rightarrow> nat list \<Rightarrow> nat list" where
  "settle_sequence n order =
     remdups (filter (\<lambda>i. i < n) order) @ filter (\<lambda>i. i \<notin> set order) [0..<n]"

text \<open>
  \<open>Promise.allSettled\<close> keeps one slot per input promise; a promise that settles stores
  its result in its own slot, and the combined promise is fulfilled with the slots once
  none is empty.
\<close>

definition store_result :: "'v settled list \<Rightarrow> 'v settled option list \<Rightarrow> nat \<Rightarrow> 'v settled option list" where
  "store_result promises slots i = slots[i := Some (promises ! i)]"

definition allSettled :: "'v settled list \<Rightarrow> nat list \<Rightarrow> 'v settled list option" where
  "allSettled promises order =
     those (foldl (store_result promises) (replicate (length promises) None)
              (settle_sequence (length promises) order))"

section \<open>The handler of \<open>mountain-info.handler.ts\<close>\<close>

record QueryStringParameters =
  trailName :: "string option"

record event =
  queryStringParameters :: "QueryStringParameters option"

record 'v response =
  statusCode :: nat
  body :: "'v json_text"

text \<open>\<open>queryStringParameters?.trailName\<close>\<close>

fun optional_trailName :: "QueryStringParameters option \<Rightarrow> string option" where
  "optional_trailName None = None"
| "optional_trailName (Some q) = trailName q"

text \<open>Lines 35 to 44: one message per rejected result, in this order.\<close>

definition collect_errors :: "'v settled \<Rightarrow> 'v settled \<Rightarrow> 'v settled \<Rightarrow> string list" where
  "collect_errors weather airQuality sunTimes =
     (let errors = [];
          errors = (case weather of
                      Rejected r \<Rightarrow> errors @ [''Weather API Error: '' @ String_of r]
                    | Fulfilled _ \<Rightarrow> errors);
          errors = (case airQuality of
                      Rejected r \<Rightarrow> errors @ [''Air Quality API Error: '' @ String_of r]
                    | Fulfilled _ \<Rightarrow> errors);
          errors = (case sunTimes of
                      Rejected r \<Rightarrow> errors @ [''Sun Times API Error: '' @ String_of r]
                    | Fulfilled _ \<Rightarrow> errors)
      in errors)"

text \<open>\<open>result.status === 'fulfilled' ? result.value : null\<close>\<close>

fun value_or_null :: "'v settled \<Rightarrow> 'v json" where
  "value_or_null (Fulfilled v) = Val v"
| "value_or_null (Rejected r) = Null"

text \<open>Lines 35 to 60: the response built from the three settled results.\<close>

definition aggregate :: "'v settled \<Rightarrow> 'v settled \<Rightarrow> 'v settled \<Rightarrow> 'v response" where
  "aggregate weather airQuality sunTimes =
     (let errors = collect_errors weather airQuality sunTimes in
      if length errors > 0 then
        \<lparr>statusCode = HttpStatus_INTERNAL_SERVER_ERROR,
         body = JSON_stringify (Obj [(''message'', Str ''Errors occurred''),
                                     (''errors'', Arr (map Str errors))])\<rparr>
      else
        \<lparr>statusCode = HttpStatus_OK,
         body = JSON_stringify (Obj [(''weather'', value_or_null weather),
                                     (''airQuality'', value_or_null airQuality),
                                     (''sunTimes'', value_or_null sunTimes)])\<rparr>)"

text \<open>
  The \<open>try\<close> block, lines 14 to 60. Destructuring fewer than three results would leave
  \<open>undefined\<close> behind, whose \<open>status\<close> cannot be read.
\<close>

definition handler_try ::
  "('n, 'v) collaborators \<Rightarrow> nat list \<Rightarrow> event \<Rightarrow> 'v response completion \<times> 'n effect list" where
  "handler_try env order ev =
     (case optional_trailName (queryStringParameters ev) of
        None \<Rightarrow>
          (Returned \<lparr>statusCode = HttpStatus_BAD_REQUEST,
                     body = JSON_stringify (Obj [(''message'', Str ''trailName is required.'')])\<rparr>, [])
      | Some name \<Rightarrow>
          if name = [] then
            (Returned \<lparr>statusCode = HttpStatus_BAD_REQUEST,
                       body = JSON_stringify (Obj [(''message'', Str ''trailName is required.'')])\<rparr>, [])
          else
            (case getCoordinatesByTrailName env name of
               Rejected r \<Rightarrow> (Threw r, [Call_getCoordinatesByTrailName name])
             | Fulfilled c \<Rightarrow>
                 (let calls = [Call_getCoordinatesByTrailName name,
                               Call_getWeatherAlert (lat c) (lng c),
                               Call_getAirQuality (lat c) (lng c),
                               Call_getSunTimes (lat c) (lng c)]
                  in case allSettled [getWeatherAlert env (lat c) (lng c),
                                      getAirQuality env (lat c) (lng c),
                                      getSunTimes env (lat c) (lng c)] order of
                       None \<Rightarrow> (Pending, calls)
                     | Some (weather # airQuality # sunTimes # _) \<Rightarrow>
                         (Returned (aggregate weather airQuality sunTimes), calls)
                     | Some _ \<Rightarrow>
                         (Threw (ErrorObject ''TypeError''
                            ''Cannot read properties of undefined (reading 'status')''), calls))))"

text \<open>The whole handler: the \<open>catch\<close> clause, lines 61 to 67, around the \<open>try\<close> block.\<close>

definition handler ::
  "('n, 'v) collaborators \<Rightarrow> nat list \<Rightarrow> event \<Rightarrow> 'v response completion \<times> 'n effect list" where
  "handler env order ev =
     (case handler_try env order ev of
        (Threw error, effects) \<Rightarrow>
          (Returned \<lparr>statusCode = HttpStatus_INTERNAL_SERVER_ERROR,
                     body = JSON_stringify (Obj [(''message'', Str ''Internal Server Error'')])\<rparr>,
           effects @ [Console_error ''Error in mountain-info handler:'' error])
      | (other, effects) \<Rightarrow> (other, effects))"

section \<open>The handler built with \<open>createGatewayHandler\<close>\<close>

text \<open>
  \<open>createGatewayHandler\<close> is not among the sources. The callback handed to it is modelled:
  it receives the request, whose \<open>query\<close> it reads as an object, and the function \<open>res\<close>,
  which stays a parameter; what the callback returns is what \<open>res\<close> makes of the reply.
  \<open>reply_body\<close> is the \<open>body\<close> property of the reply.
\<close>

record gateway_request =
  query :: QueryStringParameters

record 'v reply =
  status :: nat
  reply_body :: "'v json"

definition apiNames :: "string list" where
  "apiNames = [''weather'', ''airQuality'', ''sunTimes'']"

text \<open>Indexing past the end of an array yields \<open>undefined\<close>, rendered as that word.\<close>

definition apiName_at :: "nat \<Rightarrow> string" where
  "apiName_at index = (if index < length apiNames then apiNames ! index else ''undefined'')"

text \<open>The body of the \<open>forEach\<close> callback, lines 146 to 155, on \<open>(response, errors)\<close>.\<close>

definition record_result ::
  "(string \<times> 'v json) list \<times> string list \<Rightarrow> 'v settled \<times> nat \<Rightarrow> (string \<times> 'v json) list \<times> string list" where
  "record_result acc item =
     (case (acc, item) of
        ((response, errors), (result, index)) \<Rightarrow>
          (let apiName = apiName_at index in
           case result of
             Fulfilled v \<Rightarrow> (assign apiName (Val v) response, errors)
           | Rejected r \<Rightarrow>
               (assign apiName Null response,
                errors @ [apiName @ '' API Error: '' @ errorMessage_of r])))"

definition forEach_results :: "'v settled list \<Rightarrow> (string \<times> 'v json) list \<times> string list" where
  "forEach_results results = foldl record_result ([], []) (zip results [0..<length results])"

text \<open>Lines 143 to 167: the reply built from the settled results.\<close>

definition gateway_reply :: "'v settled list \<Rightarrow> 'v reply" where
  "gateway_reply results =
     (case forEach_results results of
        (response, errors) \<Rightarrow>
          if length errors > 0 then
            \<lparr>status = HttpStatus_INTERNAL_SERVER_ERROR,
             reply_body = Obj [(''message'', Str ''Errors occurred''),
                               (''errors'', Arr (map Str errors)),
                               (''data'', Obj response)]\<rparr>
          else
            \<lparr>status = HttpStatus_OK, reply_body = Obj response\<rparr>)"

definition gateway_handler ::
  "('n, 'v) collaborators \<Rightarrow> nat list \<Rightarrow> ('v reply \<Rightarrow> 'r) \<Rightarrow> gateway_request
     \<Rightarrow> 'r completion \<times> 'n effect list" where
  "gateway_handler env order res req =
     (case trailName (query req) of
        None \<Rightarrow>
          (Returned (res \<lparr>status = HttpStatus_BAD_REQUEST,
                          reply_body = Obj [(''message'', Str ''trailName is required.'')]\<rparr>), [])
      | Some name \<Rightarrow>
          if name = [] then
            (Returned (res \<lparr>status = HttpStatus_BAD_REQUEST,
                            reply_body = Obj [(''message'', Str ''trailName is required.'')]\<rparr>), [])
          else
            (case getCoordinatesByTrailName env name of
               Rejected r \<Rightarrow> (Threw r, [Call_getCoordinatesByTrailName name])
             | Fulfilled c \<Rightarrow>
                 (let calls = [Call_getCoordinatesByTrailName name,
                               Console_log ''Before API calls'',
                               Call_getWeatherAlert (lat c) (lng c),
                               Call_getAirQuality (lat c) (lng c),
                               Call_getSunTimes (lat c) (lng c)]
                  in case allSettled [getWeatherAlert env (lat c) (lng c),
                                      getAirQuality env (lat c) (lng c),
                                      getSunTimes env (lat c) (lng c)] order of
                       None \<Rightarrow> (Pending, calls)
                     | Some results \<Rightarrow>
                         (Returned (res (gateway_reply results)),
                          calls @ [Console_log ''Execution times:'']))))"

section \<open>Reading responses\<close>

text \<open>\<open>result.status === 'fulfilled'\<close>\<close>

fun fulfilled :: "'v settled \<Rightarrow> bool" where
  "fulfilled (Fulfilled v) = True"
| "fulfilled (Rejected r) = False"

text \<open>\<open>Object.keys(document)\<close>, and the property \<open>document[key]\<close>, absent when \<open>None\<close>.\<close>

fun keys :: "'v json \<Rightarrow> string list" where
  "keys (Obj props) = map fst props"
| "keys other = []"

fun field :: "string \<Rightarrow> 'v json \<Rightarrow> 'v json option" where
  "field key (Obj props) = map_of props key"
| "field key other = None"

fun JSON_parse :: "'v json_text \<Rightarrow> 'v json" where
  "JSON_parse (JSON_stringify document) = document"

text \<open>
  The entry of the \<open>errors\<close> list a provider accounts for, following the spec: none when
  its call succeeded, one that starts with the provider's name when it failed. \<open>render\<close>
  is the text shown for the reason.
\<close>

fun error_entry :: "(reason \<Rightarrow> string) \<Rightarrow> string \<Rightarrow> 'v settled \<Rightarrow> string list" where
  "error_entry render provider (Fulfilled v) = []"
| "error_entry render provider (Rejected r) = [provider @ '' API Error: '' @ render r]"

definition failures :: "'v settled list \<Rightarrow> nat" where
  "failures results = length (filter (\<lambda>result. \<not> fulfilled result) results)"

text \<open>Collaborators whose promises end the same way whatever the arguments.\<close>

definition constant_collaborators ::
  "('n coordinates) settled \<Rightarrow> 'v settled \<Rightarrow> 'v settled \<Rightarrow> 'v settled \<Rightarrow> ('n, 'v) collaborators" where
  "constant_collaborators c w a s =
     \<lparr>getCoordinatesByTrailName = (\<lambda>name. c),
      getWeatherAlert = (\<lambda>lat lng. w),
      getAirQuality = (\<lambda>lat lng. a),
      getSunTimes = (\<lambda>lat lng. s)\<rparr>"

section \<open>Settling order\<close>

lemma length_foldl_store_result:
  "length (foldl (store_result promises) slots is) = length slots"
  by (induction "is" arbitrary: slots) (simp_all add: store_result_def)

lemma nth_foldl_store_result:
  "j < length slots \<Longrightarrow>
   foldl (store_result promises) slots is ! j =
     (if j \<in> set is then Some (promises ! j) else slots ! j)"
proof (induction "is" arbitrary: slots)
  case Nil
  then show ?case by simp
next
  case (Cons i "is")
  have len: "j < length (store_result promises slots i)"
    using Cons.prems by (simp add: store_result_def)
  show ?case
    using Cons.IH [OF len] Cons.prems
    by (auto simp: store_result_def nth_list_update)
qed

lemma set_settle_sequence: "set (settle_sequence n order) = {0..<n}"
  by (auto simp: settle_sequence_def)

lemma those_map_Some: "those (map Some xs) = Some xs"
  by (induction xs) simp_all

lemma allSettled_in_input_order: "allSettled promises order = Some promises"
proof -
  let ?slots = "foldl (store_result promises) (replicate (length promises) None)
                  (settle_sequence (length promises) order)"
  have "?slots = map Some promises"
  proof (rule nth_equalityI)
    show "length ?slots = length (map Some promises)"
      by (simp add: length_foldl_store_result)
  next
    fix j assume "j < length ?slots"
    then have j: "j < length promises"
      by (simp add: length_foldl_store_result)
    then show "?slots ! j = map Some promises ! j"
      by (simp add: nth_foldl_store_result set_settle_sequence)
  qed
  then show ?thesis
    by (simp add: allSettled_def those_map_Some)
qed

section \<open>What the handlers compute\<close>

lemma handler_fan_out:
  assumes "optional_trailName (queryStringParameters ev) = Some name" and "name \<noteq> []"
    and "getCoordinatesByTrailName env name = Fulfilled c"
  shows "handler env order ev =
     (Returned (aggregate (getWeatherAlert env (lat c) (lng c))
                          (getAirQuality env (lat c) (lng c))
                          (getSunTimes env (lat c) (lng c))),
      [Call_getCoordinatesByTrailName name,
       Call_getWeatherAlert (lat c) (lng c),
       Call_getAirQuality (lat c) (lng c),
       Call_getSunTimes (lat c) (lng c)])"
  using assms by (simp add: handler_def handler_try_def allSettled_in_input_order)

lemma gateway_handler_fan_out:
  assumes "trailName (query req) = Some name" and "name \<noteq> []"
    and "getCoordinatesByTrailName env name = Fulfilled c"
  shows "gateway_handler env order res req =
     (Returned (res (gateway_reply [getWeatherAlert env (lat c) (lng c),
                                    getAirQuality env (lat c) (lng c),
                                    getSunTimes env (lat c) (lng c)])),
      [Call_getCoordinatesByTrailName name,
       Console_log ''Before API calls'',
       Call_getWeatherAlert (lat c) (lng c),
       Call_getAirQuality (lat c) (lng c),
       Call_getSunTimes (lat c) (lng c),
       Console_log ''Execution times:''])"
  using assms by (simp add: gateway_handler_def allSettled_in_input_order)

lemma collect_errors_entries:
  "collect_errors w a s =
     error_entry String_of ''Weather'' w @ error_entry String_of ''Air Quality'' a
       @ error_entry String_of ''Sun Times'' s"
  by (cases w; cases a; cases s) (simp_all add: collect_errors_def)

lemma upt_3: "[0..<Suc (Suc (Suc 0))] = [0, Suc 0, Suc (Suc 0)]"
  by (simp add: upt_rec)

lemma forEach_results_three:
  "forEach_results [w, a, s] =
     ([(''weather'', value_or_null w), (''airQuality'', value_or_null a),
       (''sunTimes'', value_or_null s)],
      error_entry errorMessage_of ''weather'' w @ error_entry errorMessage_of ''airQuality'' a
        @ error_entry errorMessage_of ''sunTimes'' s)"
  by (cases w; cases a; cases s)
     (simp_all add: forEach_results_def upt_3 record_result_def apiName_at_def apiNames_def)

lemma error_entry_Nil_iff: "error_entry render provider result = [] \<longleftrightarrow> fulfilled result"
  by (cases result) simp_all

lemma length_error_entry:
  "length (error_entry render provider result) = (if fulfilled result then 0 else 1)"
  by (cases result) simp_all

lemma aggregate_all_fulfilled:
  assumes "fulfilled w" and "fulfilled a" and "fulfilled s"
  shows "aggregate w a s =
     \<lparr>statusCode = 200,
      body = JSON_stringify (Obj [(''weather'', value_or_null w),
                                  (''airQuality'', value_or_null a),
                                  (''sunTimes'', value_or_null s)])\<rparr>"
  using assms
  by (simp add: aggregate_def collect_errors_entries error_entry_Nil_iff [THEN iffD2]
        HttpStatus_OK_def)

lemma aggregate_some_rejected:
  assumes "\<not> (fulfilled w \<and> fulfilled a \<and> fulfilled s)"
  shows "aggregate w a s =
     \<lparr>statusCode = 500,
      body = JSON_stringify (Obj [(''message'', Str ''Errors occurred''),
                (''errors'', Arr (map Str (error_entry String_of ''Weather'' w
                    @ error_entry String_of ''Air Quality'' a
                    @ error_entry String_of ''Sun Times'' s)))])\<rparr>"
proof -
  have "error_entry String_of ''Weather'' w @ error_entry String_of ''Air Quality'' a
          @ error_entry String_of ''Sun Times'' s \<noteq> []"
    using assms by (simp add: error_entry_Nil_iff)
  then show ?thesis
    by (simp add: aggregate_def collect_errors_entries HttpStatus_INTERNAL_SERVER_ERROR_def
          del: append_is_Nil_conv)
qed

lemma gateway_reply_all_fulfilled:
  assumes "fulfilled w" and "fulfilled a" and "fulfilled s"
  shows "gateway_reply [w, a, s] =
     \<lparr>status = 200,
      reply_body = Obj [(''weather'', value_or_null w), (''airQuality'', value_or_null a),
                        (''sunTimes'', value_or_null s)]\<rparr>"
  using assms
  by (simp add: gateway_reply_def forEach_results_three error_entry_Nil_iff [THEN iffD2]
        HttpStatus_OK_def)

lemma gateway_reply_some_rejected:
  assumes "\<not> (fulfilled w \<and> fulfilled a \<and> fulfilled s)"
  shows "gateway_reply [w, a, s] =
     \<lparr>status = 500,
      reply_body = Obj [(''message'', Str ''Errors occurred''),
                (''errors'', Arr (map Str (error_entry errorMessage_of ''weather'' w
                    @ error_entry errorMessage_of ''airQuality'' a
                    @ error_entry errorMessage_of ''sunTimes'' s))),
                (''data'', Obj [(''weather'', value_or_null w),
                                (''airQuality'', value_or_null a),
                                (''sunTimes'', value_or_null s)])]\<rparr>"
proof -
  have "error_entry errorMessage_of ''weather'' w @ error_entry errorMessage_of ''airQuality'' a
          @ error_entry errorMessage_of ''sunTimes'' s \<noteq> []"
    using assms by (simp add: error_entry_Nil_iff)
  then show ?thesis
    by (simp add: gateway_reply_def forEach_results_three HttpStatus_INTERNAL_SERVER_ERROR_def
          del: append_is_Nil_conv)
qed

lemma handler_without_trailName:
  assumes "optional_trailName (queryStringParameters ev) = None
             \<or> optional_trailName (queryStringParameters ev) = Some []"
  shows "handler env order ev =
     (Returned \<lparr>statusCode = 400,
                body = JSON_stringify (Obj [(''message'', Str ''trailName is required.'')])\<rparr>, [])"
  using assms by (auto simp: handler_def handler_try_def HttpStatus_BAD_REQUEST_def)

lemma gateway_handler_without_trailName:
  assumes "trailName (query req) = None \<or> trailName (query req) = Some []"
  shows "gateway_handler env order res req =
     (Returned (res \<lparr>status = 400,
                     reply_body = Obj [(''message'', Str ''trailName is required.'')]\<rparr>), [])"
  using assms by (auto simp: gateway_handler_def HttpStatus_BAD_REQUEST_def)

lemma handler_try_not_Pending: "fst (handler_try env order ev) \<noteq> Pending"
  by (simp add: handler_try_def allSettled_in_input_order
        split: option.split settled.split)

lemma handler_catches:
  "handler_try env order ev = (Threw e, effects) \<Longrightarrow>
   handler env order ev =
     (Returned \<lparr>statusCode = 500,
                body = JSON_stringify (Obj [(''message'', Str ''Internal Server Error'')])\<rparr>,
      effects @ [Console_error ''Error in mountain-info handler:'' e])"
  by (simp add: handler_def HttpStatus_INTERNAL_SERVER_ERROR_def)

lemma handler_order_irrelevant: "handler env order ev = handler env order' ev"
  by (simp add: handler_def handler_try_def allSettled_in_input_order
        split: option.split settled.split)

lemma gateway_handler_order_irrelevant:
  "gateway_handler env order res req = gateway_handler env order' res req"
  by (simp add: gateway_handler_def allSettled_in_input_order
        split: option.split settled.split)

section \<open>Shape of the aggregated response\<close>

text \<open>
  C1, as the code has it. For every request that passes validation and coordinate
  resolution, the 200 body of both handlers has exactly the keys \<open>weather\<close>,
  \<open>airQuality\<close> and \<open>sunTimes\<close> at top level. When a provider failed, the handler built
  with \<open>createGatewayHandler\<close> answers 500 with \<open>'Errors occurred'\<close> and all three keys
  under \<open>data\<close>, while the handler of \<open>mountain-info.handler.ts\<close> answers 500 with the keys
  \<open>message\<close> and \<open>errors\<close> only.
\<close>

theorem provider_keys_of_aggregated_bodies:
  assumes "optional_trailName (queryStringParameters ev) = Some name"
    and "trailName (query req) = Some name"
    and "name \<noteq> []"
    and "getCoordinatesByTrailName env name = Fulfilled c"
    and "w = getWeatherAlert env (lat c) (lng c)"
    and "a = getAirQuality env (lat c) (lng c)"
    and "s = getSunTimes env (lat c) (lng c)"
  shows "fst (handler env order ev) = Returned (aggregate w a s)
       \<and> fst (gateway_handler env order res req) = Returned (res (gateway_reply [w, a, s]))
       \<and> (if fulfilled w \<and> fulfilled a \<and> fulfilled s
          then statusCode (aggregate w a s) = 200
             \<and> keys (JSON_parse (body (aggregate w a s)))
                 = [''weather'', ''airQuality'', ''sunTimes'']
             \<and> status (gateway_reply [w, a, s]) = 200
             \<and> keys (reply_body (gateway_reply [w, a, s]))
                 = [''weather'', ''airQuality'', ''sunTimes'']
          else statusCode (aggregate w a s) = 500
             \<and> field ''message'' (JSON_parse (body (aggregate w a s)))
                 = Some (Str ''Errors occurred'')
             \<and> keys (JSON_parse (body (aggregate w a s))) = [''message'', ''errors'']
             \<and> status (gateway_reply [w, a, s]) = 500
             \<and> field ''message'' (reply_body (gateway_reply [w, a, s]))
                 = Some (Str ''Errors occurred'')
             \<and> map_option keys (field ''data'' (reply_body (gateway_reply [w, a, s])))
                 = Some [''weather'', ''airQuality'', ''sunTimes''])"
proof (cases "fulfilled w \<and> fulfilled a \<and> fulfilled s")
  case True
  then show ?thesis
    using assms
    by (simp add: handler_fan_out gateway_handler_fan_out aggregate_all_fulfilled
          gateway_reply_all_fulfilled)
next
  case False
  then show ?thesis
    using assms aggregate_some_rejected [OF False] gateway_reply_some_rejected [OF False]
    by (simp add: handler_fan_out gateway_handler_fan_out)
qed

theorem provider_keys_of_aggregated_bodies_witness:
  "fst (gateway_handler
          (constant_collaborators (Fulfilled \<lparr>lat = 37 :: nat, lng = 126\<rparr>)
             (Rejected (Thrown ''timeout'')) (Rejected (Thrown ''quota'')) (Fulfilled ''07:26''))
          [1, 2, 0] id \<lparr>query = \<lparr>trailName = Some ''Dobongsan''\<rparr>\<rparr>)
     = Returned (gateway_reply [Rejected (Thrown ''timeout''), Rejected (Thrown ''quota''),
                                Fulfilled ''07:26''])
   \<and> status (gateway_reply [Rejected (Thrown ''timeout''), Rejected (Thrown ''quota''),
                            Fulfilled ''07:26'']) = 500
   \<and> map_option keys (field ''data'' (reply_body (gateway_reply
        [Rejected (Thrown ''timeout''), Rejected (Thrown ''quota''), Fulfilled ''07:26''])))
       = Some [''weather'', ''airQuality'', ''sunTimes'']
   \<and> keys (JSON_parse (body (aggregate (Rejected (Thrown ''timeout''))
        (Rejected (Thrown ''quota'')) (Fulfilled ''07:26'')))) = [''message'', ''errors'']"
  using provider_keys_of_aggregated_bodies
    [where ev = "\<lparr>queryStringParameters = Some \<lparr>trailName = Some ''Dobongsan''\<rparr>\<rparr>"
       and name = "''Dobongsan''"
       and req = "\<lparr>query = \<lparr>trailName = Some ''Dobongsan''\<rparr>\<rparr>"
       and env = "constant_collaborators (Fulfilled \<lparr>lat = 37 :: nat, lng = 126\<rparr>)
             (Rejected (Thrown ''timeout'')) (Rejected (Thrown ''quota'')) (Fulfilled ''07:26'')"
       and c = "\<lparr>lat = 37, lng = 126\<rparr>"
       and w = "Rejected (Thrown ''timeout'')" and a = "Rejected (Thrown ''quota'')"
       and s = "Fulfilled ''07:26''" and order = "[1, 2, 0]" and res = id]
  by (simp add: constant_collaborators_def)

text \<open>
  The 500 body of \<open>mountain-info.handler.ts\<close> has no \<open>data\<close> property: with the weather
  call rejected it consists of \<open>message\<close> and \<open>errors\<close>.
\<close>

theorem error_body_without_data_counterexample:
  "handler (constant_collaborators (Fulfilled \<lparr>lat = 37 :: nat, lng = 126\<rparr>)
              (Rejected (Thrown ''timeout'')) (Fulfilled ''good'') (Fulfilled ''07:26''))
     [] \<lparr>queryStringParameters = Some \<lparr>trailName = Some ''Bukhansan''\<rparr>\<rparr>
   = (Returned \<lparr>statusCode = 500,
                 body = JSON_stringify (Obj [(''message'', Str ''Errors occurred''),
                          (''errors'', Arr [Str ''Weather API Error: timeout''])])\<rparr>,
      [Call_getCoordinatesByTrailName ''Bukhansan'', Call_getWeatherAlert 37 126,
       Call_getAirQuality 37 126, Call_getSunTimes 37 126])
   \<and> field ''data'' (Obj [(''message'', Str ''Errors occurred''),
                          (''errors'', Arr [Str ''Weather API Error: timeout''])]
                      :: string json) = None"
  by (simp add: handler_fan_out constant_collaborators_def aggregate_some_rejected)

section \<open>Errors and partial results\<close>

text \<open>
  C2, as the code has it. For every request that reaches the provider fan-out, the
  \<open>errors\<close> list of both handlers holds exactly one entry per failed provider, in the
  order weather, air quality, sun times, each entry starting with that provider's name;
  so one failure gives one entry and three failures give three. The handler built with
  \<open>createGatewayHandler\<close> maps every failed provider to \<open>null\<close> and every successful one
  to the value it returned, and returns this as \<open>data\<close> next to \<open>errors\<close>. The 500 body
  of \<open>mountain-info.handler.ts\<close> consists of \<open>message\<close> and \<open>errors\<close> only.
\<close>

theorem one_error_entry_per_failed_provider:
  assumes "optional_trailName (queryStringParameters ev) = Some name"
    and "trailName (query req) = Some name"
    and "name \<noteq> []"
    and "getCoordinatesByTrailName env name = Fulfilled c"
    and "w = getWeatherAlert env (lat c) (lng c)"
    and "a = getAirQuality env (lat c) (lng c)"
    and "s = getSunTimes env (lat c) (lng c)"
  shows "fst (handler env order ev) = Returned (aggregate w a s)
       \<and> fst (gateway_handler env order res req) = Returned (res (gateway_reply [w, a, s]))
       \<and> collect_errors w a s
           = error_entry String_of ''Weather'' w @ error_entry String_of ''Air Quality'' a
               @ error_entry String_of ''Sun Times'' s
       \<and> length (collect_errors w a s) = failures [w, a, s]
       \<and> snd (forEach_results [w, a, s])
           = error_entry errorMessage_of ''weather'' w
               @ error_entry errorMessage_of ''airQuality'' a
               @ error_entry errorMessage_of ''sunTimes'' s
       \<and> length (snd (forEach_results [w, a, s])) = failures [w, a, s]
       \<and> fst (forEach_results [w, a, s])
           = [(''weather'', value_or_null w), (''airQuality'', value_or_null a),
              (''sunTimes'', value_or_null s)]
       \<and> (if failures [w, a, s] = 0
          then JSON_parse (body (aggregate w a s))
                 = Obj [(''weather'', value_or_null w), (''airQuality'', value_or_null a),
                        (''sunTimes'', value_or_null s)]
             \<and> reply_body (gateway_reply [w, a, s]) = Obj (fst (forEach_results [w, a, s]))
          else JSON_parse (body (aggregate w a s))
                 = Obj [(''message'', Str ''Errors occurred''),
                        (''errors'', Arr (map Str (collect_errors w a s)))]
             \<and> reply_body (gateway_reply [w, a, s])
                 = Obj [(''message'', Str ''Errors occurred''),
                        (''errors'', Arr (map Str (snd (forEach_results [w, a, s])))),
                        (''data'', Obj (fst (forEach_results [w, a, s])))])"
proof -
  have zero: "failures [w, a, s] = 0 \<longleftrightarrow> fulfilled w \<and> fulfilled a \<and> fulfilled s"
    by (simp add: failures_def)
  have run: "fst (handler env order ev) = Returned (aggregate w a s)"
      "fst (gateway_handler env order res req) = Returned (res (gateway_reply [w, a, s]))"
    using assms by (simp_all add: handler_fan_out gateway_handler_fan_out)
  have lists: "length (collect_errors w a s) = failures [w, a, s]"
      "length (snd (forEach_results [w, a, s])) = failures [w, a, s]"
    by (simp_all add: collect_errors_entries forEach_results_three failures_def
          length_error_entry)
  show ?thesis
  proof (cases "fulfilled w \<and> fulfilled a \<and> fulfilled s")
    case True
    then show ?thesis
      using run lists zero
      by (simp add: collect_errors_entries forEach_results_three aggregate_all_fulfilled
            gateway_reply_all_fulfilled)
  next
    case False
    then show ?thesis
      using run lists zero aggregate_some_rejected [OF False]
        gateway_reply_some_rejected [OF False]
      by (simp add: collect_errors_entries forEach_results_three)
  qed
qed

theorem one_error_entry_per_failed_provider_witness:
  "fst (gateway_handler
          (constant_collaborators (Fulfilled \<lparr>lat = 37 :: nat, lng = 127\<rparr>)
             (Fulfilled ''clear'') (Rejected (ErrorObject ''Error'' ''HTTP 503'')) (Fulfilled ''17:15''))
          [2, 1, 0] id \<lparr>query = \<lparr>trailName = Some ''Gwanaksan''\<rparr>\<rparr>)
     = Returned (gateway_reply [Fulfilled ''clear'', Rejected (ErrorObject ''Error'' ''HTTP 503''),
                                Fulfilled ''17:15''])
   \<and> field ''errors'' (reply_body (gateway_reply
        [Fulfilled ''clear'', Rejected (ErrorObject ''Error'' ''HTTP 503''), Fulfilled ''17:15'']))
       = Some (Arr [Str ''airQuality API Error: HTTP 503''])
   \<and> field ''data'' (reply_body (gateway_reply
        [Fulfilled ''clear'', Rejected (ErrorObject ''Error'' ''HTTP 503''), Fulfilled ''17:15'']))
       = Some (Obj [(''weather'', Val ''clear''), (''airQuality'', Null),
                    (''sunTimes'', Val ''17:15'')])
   \<and> field ''errors'' (JSON_parse (body (aggregate (Fulfilled ''clear'')
        (Rejected (ErrorObject ''Error'' ''HTTP 503'')) (Fulfilled ''17:15''))))
       = Some (Arr [Str ''Air Quality API Error: Error: HTTP 503''])
   \<and> failures [Fulfilled ''clear'', Rejected (ErrorObject ''Error'' ''HTTP 503''),
                Fulfilled ''17:15''] = 1"
  using one_error_entry_per_failed_provider
    [where ev = "\<lparr>queryStringParameters = Some \<lparr>trailName = Some ''Gwanaksan''\<rparr>\<rparr>"
       and name = "''Gwanaksan''"
       and req = "\<lparr>query = \<lparr>trailName = Some ''Gwanaksan''\<rparr>\<rparr>"
       and env = "constant_collaborators (Fulfilled \<lparr>lat = 37 :: nat, lng = 127\<rparr>)
             (Fulfilled ''clear'') (Rejected (ErrorObject ''Error'' ''HTTP 503'')) (Fulfilled ''17:15'')"
       and c = "\<lparr>lat = 37, lng = 127\<rparr>"
       and w = "Fulfilled ''clear''" and a = "Rejected (ErrorObject ''Error'' ''HTTP 503'')"
       and s = "Fulfilled ''17:15''" and order = "[2, 1, 0]" and res = id]
  by (simp add: constant_collaborators_def failures_def)

text \<open>
  With only the sun times call rejected, the response of \<open>mountain-info.handler.ts\<close>
  carries neither \<open>data\<close> nor the two values that were returned.
\<close>

theorem partial_results_missing_counterexample:
  "handler (constant_collaborators (Fulfilled \<lparr>lat = 37 :: nat, lng = 126\<rparr>)
              (Fulfilled ''clear'') (Fulfilled ''good'') (Rejected (ErrorObject ''Error'' ''no data'')))
     [] \<lparr>queryStringParameters = Some \<lparr>trailName = Some ''Bukhansan''\<rparr>\<rparr>
   = (Returned (aggregate (Fulfilled ''clear'') (Fulfilled ''good'')
                  (Rejected (ErrorObject ''Error'' ''no data''))),
      [Call_getCoordinatesByTrailName ''Bukhansan'', Call_getWeatherAlert 37 126,
       Call_getAirQuality 37 126, Call_getSunTimes 37 126])
   \<and> JSON_parse (body (aggregate (Fulfilled ''clear'') (Fulfilled ''good'')
                  (Rejected (ErrorObject ''Error'' ''no data''))))
     = Obj [(''message'', Str ''Errors occurred''),
            (''errors'', Arr [Str ''Sun Times API Error: Error: no data''])]
   \<and> field ''data'' (JSON_parse (body (aggregate (Fulfilled ''clear'') (Fulfilled ''good'')
                  (Rejected (ErrorObject ''Error'' ''no data''))))) = None"
  by (simp add: handler_fan_out constant_collaborators_def aggregate_some_rejected)

section \<open>Status selection\<close>

text \<open>
  C3. For every request that passes validation and coordinate resolution, the status is
  200 if and only if all three provider calls succeed, and 500 if and only if at least
  one of them fails. This holds for both handlers.
\<close>

theorem status_200_iff_all_providers_succeed:
  assumes "optional_trailName (queryStringParameters ev) = Some name"
    and "trailName (query req) = Some name"
    and "name \<noteq> []"
    and "getCoordinatesByTrailName env name = Fulfilled c"
    and "w = getWeatherAlert env (lat c) (lng c)"
    and "a = getAirQuality env (lat c) (lng c)"
    and "s = getSunTimes env (lat c) (lng c)"
  shows "fst (handler env order ev) = Returned (aggregate w a s)
       \<and> fst (gateway_handler env order res req) = Returned (res (gateway_reply [w, a, s]))
       \<and> (statusCode (aggregate w a s) = 200 \<longleftrightarrow> fulfilled w \<and> fulfilled a \<and> fulfilled s)
       \<and> (statusCode (aggregate w a s) = 500 \<longleftrightarrow> \<not> (fulfilled w \<and> fulfilled a \<and> fulfilled s))
       \<and> (status (gateway_reply [w, a, s]) = 200 \<longleftrightarrow> fulfilled w \<and> fulfilled a \<and> fulfilled s)
       \<and> (status (gateway_reply [w, a, s]) = 500
            \<longleftrightarrow> \<not> (fulfilled w \<and> fulfilled a \<and> fulfilled s))"
proof (cases "fulfilled w \<and> fulfilled a \<and> fulfilled s")
  case True
  then show ?thesis
    using assms
    by (simp add: handler_fan_out gateway_handler_fan_out aggregate_all_fulfilled
          gateway_reply_all_fulfilled)
next
  case False
  then show ?thesis
    using assms aggregate_some_rejected [OF False] gateway_reply_some_rejected [OF False]
    by (simp add: handler_fan_out gateway_handler_fan_out)
qed

theorem status_200_iff_all_providers_succeed_witness:
  "fst (handler (constant_collaborators (Fulfilled \<lparr>lat = 37 :: nat, lng = 126\<rparr>)
                   (Fulfilled ''clear'') (Rejected (Thrown ''timeout'')) (Fulfilled ''07:26''))
          [2, 0, 1] \<lparr>queryStringParameters = Some \<lparr>trailName = Some ''Bukhansan''\<rparr>\<rparr>)
     = Returned (aggregate (Fulfilled ''clear'') (Rejected (Thrown ''timeout'')) (Fulfilled ''07:26''))
   \<and> fst (gateway_handler (constant_collaborators (Fulfilled \<lparr>lat = 37 :: nat, lng = 126\<rparr>)
                   (Fulfilled ''clear'') (Rejected (Thrown ''timeout'')) (Fulfilled ''07:26''))
          [2, 0, 1] id \<lparr>query = \<lparr>trailName = Some ''Bukhansan''\<rparr>\<rparr>)
     = Returned (gateway_reply [Fulfilled ''clear'', Rejected (Thrown ''timeout''),
                                Fulfilled ''07:26''])
   \<and> statusCode (aggregate (Fulfilled ''clear'') (Rejected (Thrown ''timeout''))
        (Fulfilled ''07:26'')) = 500
   \<and> status (gateway_reply [Fulfilled ''clear'', Rejected (Thrown ''timeout''),
        Fulfilled ''07:26'']) = 500"
  using status_200_iff_all_providers_succeed
    [where ev = "\<lparr>queryStringParameters = Some \<lparr>trailName = Some ''Bukhansan''\<rparr>\<rparr>"
       and name = "''Bukhansan''"
       and req = "\<lparr>query = \<lparr>trailName = Some ''Bukhansan''\<rparr>\<rparr>"
       and env = "constant_collaborators (Fulfilled \<lparr>lat = 37 :: nat, lng = 126\<rparr>)
           (Fulfilled ''clear'') (Rejected (Thrown ''timeout'')) (Fulfilled ''07:26'')"
       and c = "\<lparr>lat = 37, lng = 126\<rparr>"
       and w = "Fulfilled ''clear''" and a = "Rejected (Thrown ''timeout'')"
       and s = "Fulfilled ''07:26''" and order = "[2, 0, 1]" and res = id]
  by (simp add: constant_collaborators_def)

text \<open>
  C4. For every request where all three providers succeed, the status is 200 and the
  body consists of exactly the three fields \<open>weather\<close>, \<open>airQuality\<close> and \<open>sunTimes\<close>, each
  holding the value its provider returned. This holds for both handlers.
\<close>

theorem all_succeed_returns_values_unchanged:
  assumes "optional_trailName (queryStringParameters ev) = Some name"
    and "trailName (query req) = Some name"
    and "name \<noteq> []"
    and "getCoordinatesByTrailName env name = Fulfilled c"
    and "getWeatherAlert env (lat c) (lng c) = Fulfilled weather"
    and "getAirQuality env (lat c) (lng c) = Fulfilled airQuality"
    and "getSunTimes env (lat c) (lng c) = Fulfilled sunTimes"
  shows "fst (handler env order ev) =
           Returned \<lparr>statusCode = 200,
                      body = JSON_stringify (Obj [(''weather'', Val weather),
                                                  (''airQuality'', Val airQuality),
                                                  (''sunTimes'', Val sunTimes)])\<rparr>
       \<and> fst (gateway_handler env order res req) =
           Returned (res \<lparr>status = 200,
                           reply_body = Obj [(''weather'', Val weather),
                                             (''airQuality'', Val airQuality),
                                             (''sunTimes'', Val sunTimes)]\<rparr>)"
  using assms
  by (simp add: handler_fan_out gateway_handler_fan_out aggregate_all_fulfilled
        gateway_reply_all_fulfilled)

theorem all_succeed_returns_values_unchanged_witness:
  "fst (handler (constant_collaborators (Fulfilled \<lparr>lat = 37 :: nat, lng = 126\<rparr>)
                   (Fulfilled ''rain'') (Fulfilled ''moderate'') (Fulfilled ''05:48''))
          [1, 0, 2] \<lparr>queryStringParameters = Some \<lparr>trailName = Some ''Inwangsan''\<rparr>\<rparr>)
     = Returned \<lparr>statusCode = 200,
                  body = JSON_stringify (Obj [(''weather'', Val ''rain''),
                                              (''airQuality'', Val ''moderate''),
                                              (''sunTimes'', Val ''05:48'')])\<rparr>
   \<and> fst (gateway_handler (constant_collaborators (Fulfilled \<lparr>lat = 37 :: nat, lng = 126\<rparr>)
                   (Fulfilled ''rain'') (Fulfilled ''moderate'') (Fulfilled ''05:48''))
          [1, 0, 2] id \<lparr>query = \<lparr>trailName = Some ''Inwangsan''\<rparr>\<rparr>)
     = Returned \<lparr>status = 200,
                  reply_body = Obj [(''weather'', Val ''rain''),
                                    (''airQuality'', Val ''moderate''),
                                    (''sunTimes'', Val ''05:48'')]\<rparr>"
  using all_succeed_returns_values_unchanged
    [where ev = "\<lparr>queryStringParameters = Some \<lparr>trailName = Some ''Inwangsan''\<rparr>\<rparr>"
       and name = "''Inwangsan''"
       and req = "\<lparr>query = \<lparr>trailName = Some ''Inwangsan''\<rparr>\<rparr>"
       and env = "constant_collaborators (Fulfilled \<lparr>lat = 37 :: nat, lng = 126\<rparr>)
           (Fulfilled ''rain'') (Fulfilled ''moderate'') (Fulfilled ''05:48'')"
       and c = "\<lparr>lat = 37, lng = 126\<rparr>"
       and weather = "''rain''" and airQuality = "''moderate''" and sunTimes = "''05:48''"
       and order = "[1, 0, 2]" and res = id]
  by (simp add: constant_collaborators_def)

section \<open>Validation\<close>

text \<open>
  C5. For every request whose \<open>trailName\<close> query parameter is missing (the parameter
  object absent, or present without the parameter), the handler returns status 400 with
  the body \<open>{message: 'trailName is required.'}\<close>, and it issues no call at all: neither
  coordinate resolution nor any provider call. This holds for both handlers.
\<close>

theorem missing_trailName_is_rejected_without_calls:
  assumes "optional_trailName (queryStringParameters ev) = None"
    and "trailName (query req) = None"
  shows "handler env order ev =
           (Returned \<lparr>statusCode = 400,
                       body = JSON_stringify (Obj [(''message'', Str ''trailName is required.'')])\<rparr>,
            [])
       \<and> gateway_handler env order res req =
           (Returned (res \<lparr>status = 400,
                            reply_body = Obj [(''message'', Str ''trailName is required.'')]\<rparr>),
            [])"
  using assms
  by (simp add: handler_without_trailName gateway_handler_without_trailName)

theorem missing_trailName_is_rejected_without_calls_witness:
  "optional_trailName (queryStringParameters \<lparr>queryStringParameters = Some \<lparr>trailName = None\<rparr>\<rparr>)
     = None
   \<and> handler (constant_collaborators (Fulfilled \<lparr>lat = 37 :: nat, lng = 126\<rparr>)
                (Fulfilled ''clear'') (Fulfilled ''good'') (Fulfilled ''07:26''))
       [0, 1, 2] \<lparr>queryStringParameters = Some \<lparr>trailName = None\<rparr>\<rparr>
     = (Returned \<lparr>statusCode = 400,
                   body = JSON_stringify (Obj [(''message'', Str ''trailName is required.'')])\<rparr>,
        [])
   \<and> gateway_handler (constant_collaborators (Fulfilled \<lparr>lat = 37 :: nat, lng = 126\<rparr>)
                (Fulfilled ''clear'') (Fulfilled ''good'') (Fulfilled ''07:26''))
       [0, 1, 2] id \<lparr>query = \<lparr>trailName = None\<rparr>\<rparr>
     = (Returned \<lparr>status = 400,
                   reply_body = Obj [(''message'', Str ''trailName is required.'')]\<rparr>,
        [])"
  using missing_trailName_is_rejected_without_calls
    [where ev = "\<lparr>queryStringParameters = Some \<lparr>trailName = None\<rparr>\<rparr>"
       and req = "\<lparr>query = \<lparr>trailName = None\<rparr>\<rparr>"
       and env = "constant_collaborators (Fulfilled \<lparr>lat = 37 :: nat, lng = 126\<rparr>)
                (Fulfilled ''clear'') (Fulfilled ''good'') (Fulfilled ''07:26'')"
       and order = "[0, 1, 2]" and res = id]
  by simp

text \<open>
  C10. For every request whose \<open>trailName\<close> query parameter is present but is the empty
  string, the handler behaves exactly as for a missing parameter: status 400, the body
  \<open>{message: 'trailName is required.'}\<close>, and no downstream call. This holds for both
  handlers.
\<close>

theorem empty_trailName_is_treated_as_missing:
  assumes "optional_trailName (queryStringParameters ev) = Some []"
    and "trailName (query req) = Some []"
  shows "handler env order ev =
           (Returned \<lparr>statusCode = 400,
                       body = JSON_stringify (Obj [(''message'', Str ''trailName is required.'')])\<rparr>,
            [])
       \<and> handler env order ev = handler env order (ev\<lparr>queryStringParameters := None\<rparr>)
       \<and> gateway_handler env order res req =
           (Returned (res \<lparr>status = 400,
                            reply_body = Obj [(''message'', Str ''trailName is required.'')]\<rparr>),
            [])
       \<and> gateway_handler env order res req =
           gateway_handler env order res (req\<lparr>query := (query req)\<lparr>trailName := None\<rparr>\<rparr>)"
  using assms
  by (simp add: handler_without_trailName gateway_handler_without_trailName)

theorem empty_trailName_is_treated_as_missing_witness:
  "handler (constant_collaborators (Fulfilled \<lparr>lat = 37 :: nat, lng = 126\<rparr>)
              (Fulfilled ''clear'') (Fulfilled ''good'') (Fulfilled ''07:26''))
       [] \<lparr>queryStringParameters = Some \<lparr>trailName = Some []\<rparr>\<rparr>
     = (Returned \<lparr>statusCode = 400,
                   body = JSON_stringify (Obj [(''message'', Str ''trailName is required.'')])\<rparr>,
        [])
   \<and> gateway_handler (constant_collaborators (Fulfilled \<lparr>lat = 37 :: nat, lng = 126\<rparr>)
              (Fulfilled ''clear'') (Fulfilled ''good'') (Fulfilled ''07:26''))
       [] id \<lparr>query = \<lparr>trailName = Some []\<rparr>\<rparr>
     = (Returned \<lparr>status = 400,
                   reply_body = Obj [(''message'', Str ''trailName is required.'')]\<rparr>,
        [])"
  using empty_trailName_is_treated_as_missing
    [where ev = "\<lparr>queryStringParameters = Some \<lparr>trailName = Some []\<rparr>\<rparr>"
       and req = "\<lparr>query = \<lparr>trailName = Some []\<rparr>\<rparr>"
       and env = "constant_collaborators (Fulfilled \<lparr>lat = 37 :: nat, lng = 126\<rparr>)
              (Fulfilled ''clear'') (Fulfilled ''good'') (Fulfilled ''07:26'')"
       and order = "[]" and res = id]
  by simp

section \<open>Failures outside the providers\<close>

text \<open>
  C6. For every request where coordinate resolution throws, the handler of
  \<open>mountain-info.handler.ts\<close> returns status 500 with the generic body
  \<open>{message: 'Internal Server Error'}\<close>, whatever was thrown: the reason only reaches the
  log. Besides the resolution call itself it issues no call, so no provider is called.
\<close>

theorem failed_resolution_gives_generic_500:
  assumes "optional_trailName (queryStringParameters ev) = Some name"
    and "name \<noteq> []"
    and "getCoordinatesByTrailName env name = Rejected r"
  shows "handler env order ev =
           (Returned \<lparr>statusCode = 500,
                       body = JSON_stringify (Obj [(''message'', Str ''Internal Server Error'')])\<rparr>,
            [Call_getCoordinatesByTrailName name,
             Console_error ''Error in mountain-info handler:'' r])"
proof -
  have "handler_try env order ev = (Threw r, [Call_getCoordinatesByTrailName name])"
    using assms by (simp add: handler_try_def)
  from handler_catches [OF this] show ?thesis
    by simp
qed

theorem failed_resolution_gives_generic_500_witness:
  "handler (constant_collaborators (Rejected (ErrorObject ''Error'' ''unknown trail: Nowhere''))
              (Fulfilled ''clear'') (Fulfilled ''good'') (Fulfilled ''07:26''))
     [0, 1, 2] \<lparr>queryStringParameters = Some \<lparr>trailName = Some ''Nowhere''\<rparr>\<rparr>
   = (Returned \<lparr>statusCode = 500,
                 body = JSON_stringify (Obj [(''message'', Str ''Internal Server Error'')])\<rparr>,
      [Call_getCoordinatesByTrailName ''Nowhere'',
       Console_error ''Error in mountain-info handler:''
         (ErrorObject ''Error'' ''unknown trail: Nowhere'') :: nat effect])"
  using failed_resolution_gives_generic_500
    [where ev = "\<lparr>queryStringParameters = Some \<lparr>trailName = Some ''Nowhere''\<rparr>\<rparr>"
       and name = "''Nowhere''"
       and env = "constant_collaborators (Rejected (ErrorObject ''Error'' ''unknown trail: Nowhere''))
              (Fulfilled ''clear'') (Fulfilled ''good'') (Fulfilled ''07:26'')
              :: (nat, string) collaborators"
       and r = "ErrorObject ''Error'' ''unknown trail: Nowhere''"
       and order = "[0, 1, 2]"]
  by (simp add: constant_collaborators_def)

text \<open>
  C9. For every incoming event, the handler of \<open>mountain-info.handler.ts\<close> returns a
  response, with status 200, 400 or 500, and never throws. An event without a
  \<open>queryStringParameters\<close> object gets the 400 validation response, and whatever the
  \<open>try\<close> block throws is turned into the generic 500 response by the \<open>catch\<close> clause.
\<close>

theorem handler_always_returns_a_response:
  "(\<exists>r. fst (handler env order ev) = Returned r \<and> statusCode r \<in> {200, 400, 500})
   \<and> (queryStringParameters ev = None \<longrightarrow>
        handler env order ev =
          (Returned \<lparr>statusCode = 400,
                      body = JSON_stringify (Obj [(''message'', Str ''trailName is required.'')])\<rparr>,
           []))
   \<and> (\<forall>e effects. handler_try env order ev = (Threw e, effects) \<longrightarrow>
        handler env order ev =
          (Returned \<lparr>statusCode = 500,
                      body = JSON_stringify (Obj [(''message'', Str ''Internal Server Error'')])\<rparr>,
           effects @ [Console_error ''Error in mountain-info handler:'' e]))"
proof (intro conjI allI impI)
  show "\<exists>r. fst (handler env order ev) = Returned r \<and> statusCode r \<in> {200, 400, 500}"
  proof (cases "handler_try env order ev")
    case (Pair outcome effects)
    show ?thesis
    proof (cases outcome)
      case (Returned r)
      have "statusCode r \<in> {200, 400, 500}"
        using Pair Returned
        by (auto simp: handler_try_def allSettled_in_input_order aggregate_def Let_def
              HttpStatus_OK_def HttpStatus_BAD_REQUEST_def HttpStatus_INTERNAL_SERVER_ERROR_def
              split: option.splits if_splits settled.splits)
      then show ?thesis
        using Pair Returned by (simp add: handler_def)
    next
      case (Threw e)
      then show ?thesis
        using handler_catches [of env order ev e effects] Pair by simp
    next
      case Pending
      then show ?thesis
        using handler_try_not_Pending [of env order ev] Pair by simp
    qed
  qed
next
  assume "queryStringParameters ev = None"
  then show "handler env order ev =
          (Returned \<lparr>statusCode = 400,
                      body = JSON_stringify (Obj [(''message'', Str ''trailName is required.'')])\<rparr>,
           [])"
    by (simp add: handler_without_trailName)
next
  fix e effects
  assume "handler_try env order ev = (Threw e, effects)"
  then show "handler env order ev =
          (Returned \<lparr>statusCode = 500,
                      body = JSON_stringify (Obj [(''message'', Str ''Internal Server Error'')])\<rparr>,
           effects @ [Console_error ''Error in mountain-info handler:'' e])"
    by (rule handler_catches)
qed

theorem handler_always_returns_a_response_witness:
  "handler (constant_collaborators (Fulfilled \<lparr>lat = 37 :: nat, lng = 126\<rparr>)
              (Fulfilled ''clear'') (Fulfilled ''good'') (Fulfilled ''07:26''))
     [] \<lparr>queryStringParameters = None\<rparr>
   = (Returned \<lparr>statusCode = 400,
                 body = JSON_stringify (Obj [(''message'', Str ''trailName is required.'')])\<rparr>,
      [])
   \<and> handler_try (constant_collaborators (Rejected (Thrown ''ECONNRESET''))
              (Fulfilled ''clear'') (Fulfilled ''good'') (Fulfilled ''07:26''))
     [] \<lparr>queryStringParameters = Some \<lparr>trailName = Some ''Achasan''\<rparr>\<rparr>
   = (Threw (Thrown ''ECONNRESET''), [Call_getCoordinatesByTrailName ''Achasan'' :: nat effect])
   \<and> handler (constant_collaborators (Rejected (Thrown ''ECONNRESET''))
              (Fulfilled ''clear'') (Fulfilled ''good'') (Fulfilled ''07:26''))
     [] \<lparr>queryStringParameters = Some \<lparr>trailName = Some ''Achasan''\<rparr>\<rparr>
   = (Returned \<lparr>statusCode = 500,
                 body = JSON_stringify (Obj [(''message'', Str ''Internal Server Error'')])\<rparr>,
      [Call_getCoordinatesByTrailName ''Achasan'',
       Console_error ''Error in mountain-info handler:'' (Thrown ''ECONNRESET'') :: nat effect])"
proof -
  have thrown: "handler_try (constant_collaborators (Rejected (Thrown ''ECONNRESET''))
              (Fulfilled ''clear'') (Fulfilled ''good'') (Fulfilled ''07:26''))
     [] \<lparr>queryStringParameters = Some \<lparr>trailName = Some ''Achasan''\<rparr>\<rparr>
     = (Threw (Thrown ''ECONNRESET''), [Call_getCoordinatesByTrailName ''Achasan'' :: nat effect])"
    by (simp add: handler_try_def constant_collaborators_def)
  show ?thesis
    using thrown
      handler_always_returns_a_response
        [where ev = "\<lparr>queryStringParameters = None\<rparr>"
           and env = "constant_collaborators (Fulfilled \<lparr>lat = 37 :: nat, lng = 126\<rparr>)
              (Fulfilled ''clear'') (Fulfilled ''good'') (Fulfilled ''07:26'')"
           and order = "[]"]
      handler_always_returns_a_response
        [where ev = "\<lparr>queryStringParameters = Some \<lparr>trailName = Some ''Achasan''\<rparr>\<rparr>"
           and env = "constant_collaborators (Rejected (Thrown ''ECONNRESET''))
              (Fulfilled ''clear'') (Fulfilled ''good'') (Fulfilled ''07:26'')
              :: (nat, string) collaborators"
           and order = "[]"]
    by simp
qed

section \<open>Order of the merged results\<close>

text \<open>
  C7, as the code has it. For every request that reaches the provider fan-out, the
  response does not depend on the order in which the three calls settle: two runs with
  the same provider outcomes return the same response. Wherever results are merged (the
  200 body of both handlers, and \<open>data\<close> in the 500 body of the handler built with
  \<open>createGatewayHandler\<close>) the keys come in the order \<open>weather\<close>, \<open>airQuality\<close>,
  \<open>sunTimes\<close>, and each key holds the result of its own provider: the value it returned,
  or \<open>null\<close> when it failed. The 500 body of \<open>mountain-info.handler.ts\<close> presents no
  result: it consists of \<open>message\<close> and \<open>errors\<close>, the entries of \<open>errors\<close> following the
  same provider order.
\<close>

theorem merged_in_fixed_order_whatever_settles_first:
  assumes "optional_trailName (queryStringParameters ev) = Some name"
    and "trailName (query req) = Some name"
    and "name \<noteq> []"
    and "getCoordinatesByTrailName env name = Fulfilled c"
    and "w = getWeatherAlert env (lat c) (lng c)"
    and "a = getAirQuality env (lat c) (lng c)"
    and "s = getSunTimes env (lat c) (lng c)"
  shows "handler env order ev = handler env order' ev
       \<and> gateway_handler env order res req = gateway_handler env order' res req
       \<and> allSettled [w, a, s] order = Some [w, a, s]
       \<and> fst (handler env order ev) = Returned (aggregate w a s)
       \<and> fst (gateway_handler env order res req) = Returned (res (gateway_reply [w, a, s]))
       \<and> (if fulfilled w \<and> fulfilled a \<and> fulfilled s
          then JSON_parse (body (aggregate w a s))
                 = Obj [(''weather'', case w of Fulfilled v \<Rightarrow> Val v | Rejected r \<Rightarrow> Null),
                        (''airQuality'', case a of Fulfilled v \<Rightarrow> Val v | Rejected r \<Rightarrow> Null),
                        (''sunTimes'', case s of Fulfilled v \<Rightarrow> Val v | Rejected r \<Rightarrow> Null)]
             \<and> reply_body (gateway_reply [w, a, s])
                 = Obj [(''weather'', case w of Fulfilled v \<Rightarrow> Val v | Rejected r \<Rightarrow> Null),
                        (''airQuality'', case a of Fulfilled v \<Rightarrow> Val v | Rejected r \<Rightarrow> Null),
                        (''sunTimes'', case s of Fulfilled v \<Rightarrow> Val v | Rejected r \<Rightarrow> Null)]
          else JSON_parse (body (aggregate w a s))
                 = Obj [(''message'', Str ''Errors occurred''),
                        (''errors'', Arr (map Str (error_entry String_of ''Weather'' w
                            @ error_entry String_of ''Air Quality'' a
                            @ error_entry String_of ''Sun Times'' s)))]
             \<and> reply_body (gateway_reply [w, a, s])
                 = Obj [(''message'', Str ''Errors occurred''),
                        (''errors'', Arr (map Str (error_entry errorMessage_of ''weather'' w
                            @ error_entry errorMessage_of ''airQuality'' a
                            @ error_entry errorMessage_of ''sunTimes'' s))),
                        (''data'',
                         Obj [(''weather'', case w of Fulfilled v \<Rightarrow> Val v | Rejected r \<Rightarrow> Null),
                              (''airQuality'', case a of Fulfilled v \<Rightarrow> Val v | Rejected r \<Rightarrow> Null),
                              (''sunTimes'', case s of Fulfilled v \<Rightarrow> Val v | Rejected r \<Rightarrow> Null)])])"
proof -
  have entry: "value_or_null x = (case x of Fulfilled v \<Rightarrow> Val v | Rejected r \<Rightarrow> Null)"
    for x :: "'b settled"
    by (cases x) simp_all
  have "handler env order ev = handler env order' ev"
    by (rule handler_order_irrelevant)
  moreover have "gateway_handler env order res req = gateway_handler env order' res req"
    by (rule gateway_handler_order_irrelevant)
  moreover have "allSettled [w, a, s] order = Some [w, a, s]"
    by (rule allSettled_in_input_order)
  moreover have "fst (handler env order ev) = Returned (aggregate w a s)"
    using assms by (simp add: handler_fan_out)
  moreover have "fst (gateway_handler env order res req) = Returned (res (gateway_reply [w, a, s]))"
    using assms by (simp add: gateway_handler_fan_out)
  moreover have "?thesis" if all: "fulfilled w \<and> fulfilled a \<and> fulfilled s"
    using all calculation
    by (simp add: aggregate_all_fulfilled gateway_reply_all_fulfilled entry)
  moreover have "?thesis" if some: "\<not> (fulfilled w \<and> fulfilled a \<and> fulfilled s)"
    using some calculation aggregate_some_rejected [OF some] gateway_reply_some_rejected [OF some]
    by (simp add: entry)
  ultimately show ?thesis
    by blast
qed

theorem merged_in_fixed_order_whatever_settles_first_witness:
  "handler (constant_collaborators (Fulfilled \<lparr>lat = 37 :: nat, lng = 127\<rparr>)
              (Fulfilled ''snow'') (Fulfilled ''bad'') (Fulfilled ''07:40''))
     [2, 1, 0] \<lparr>queryStringParameters = Some \<lparr>trailName = Some ''Suraksan''\<rparr>\<rparr>
   = handler (constant_collaborators (Fulfilled \<lparr>lat = 37 :: nat, lng = 127\<rparr>)
              (Fulfilled ''snow'') (Fulfilled ''bad'') (Fulfilled ''07:40''))
     [0, 1, 2] \<lparr>queryStringParameters = Some \<lparr>trailName = Some ''Suraksan''\<rparr>\<rparr>
   \<and> settle_sequence 3 [2, 1, 0] \<noteq> settle_sequence 3 [0, 1, 2]
   \<and> allSettled [Fulfilled ''snow'', Fulfilled ''bad'', Fulfilled ''07:40''] [2, 1, 0]
       = Some [Fulfilled ''snow'', Fulfilled ''bad'', Fulfilled ''07:40'']
   \<and> fst (handler (constant_collaborators (Fulfilled \<lparr>lat = 37 :: nat, lng = 127\<rparr>)
              (Fulfilled ''snow'') (Fulfilled ''bad'') (Fulfilled ''07:40''))
          [2, 1, 0] \<lparr>queryStringParameters = Some \<lparr>trailName = Some ''Suraksan''\<rparr>\<rparr>)
       = Returned (aggregate (Fulfilled ''snow'') (Fulfilled ''bad'') (Fulfilled ''07:40''))
   \<and> JSON_parse (body (aggregate (Fulfilled ''snow'') (Fulfilled ''bad'')
        (Fulfilled ''07:40'')))
       = Obj [(''weather'', Val ''snow''), (''airQuality'', Val ''bad''),
              (''sunTimes'', Val ''07:40'')]
   \<and> reply_body (gateway_reply [Fulfilled ''snow'', Fulfilled ''bad'', Fulfilled ''07:40''])
       = Obj [(''weather'', Val ''snow''), (''airQuality'', Val ''bad''),
              (''sunTimes'', Val ''07:40'')]"
proof -
  have differ: "settle_sequence 3 [2, 1, 0] \<noteq> settle_sequence 3 [0, 1, 2]"
    by (simp add: settle_sequence_def)
  show ?thesis
    using differ merged_in_fixed_order_whatever_settles_first
      [where ev = "\<lparr>queryStringParameters = Some \<lparr>trailName = Some ''Suraksan''\<rparr>\<rparr>"
         and name = "''Suraksan''"
         and req = "\<lparr>query = \<lparr>trailName = Some ''Suraksan''\<rparr>\<rparr>"
         and env = "constant_collaborators (Fulfilled \<lparr>lat = 37 :: nat, lng = 127\<rparr>)
              (Fulfilled ''snow'') (Fulfilled ''bad'') (Fulfilled ''07:40'')"
         and c = "\<lparr>lat = 37, lng = 127\<rparr>"
         and w = "Fulfilled ''snow''" and a = "Fulfilled ''bad''" and s = "Fulfilled ''07:40''"
         and order = "[2, 1, 0]" and order' = "[0, 1, 2]" and res = id]
    unfolding constant_collaborators_def by (simp add: handler_fan_out)
qed

text \<open>
  With only the air quality call rejected, the response of \<open>mountain-info.handler.ts\<close>
  presents no result under any key, whatever the settling order: its body has the keys
  \<open>message\<close> and \<open>errors\<close>, and the weather and sun times that were returned are absent.
\<close>

theorem no_results_in_error_body_counterexample:
  "handler (constant_collaborators (Fulfilled \<lparr>lat = 37 :: nat, lng = 127\<rparr>)
              (Fulfilled ''clear'') (Rejected (Thrown ''quota'')) (Fulfilled ''17:15''))
     [2, 0, 1] \<lparr>queryStringParameters = Some \<lparr>trailName = Some ''Suraksan''\<rparr>\<rparr>
   = (Returned (aggregate (Fulfilled ''clear'') (Rejected (Thrown ''quota''))
                  (Fulfilled ''17:15'')),
      [Call_getCoordinatesByTrailName ''Suraksan'', Call_getWeatherAlert 37 127,
       Call_getAirQuality 37 127, Call_getSunTimes 37 127])
   \<and> JSON_parse (body (aggregate (Fulfilled ''clear'') (Rejected (Thrown ''quota''))
                  (Fulfilled ''17:15'')))
     = Obj [(''message'', Str ''Errors occurred''),
            (''errors'', Arr [Str ''Air Quality API Error: quota''])]
   \<and> keys (JSON_parse (body (aggregate (Fulfilled ''clear'') (Rejected (Thrown ''quota''))
                  (Fulfilled ''17:15'')))) = [''message'', ''errors'']
   \<and> field ''weather'' (JSON_parse (body (aggregate (Fulfilled ''clear'')
                  (Rejected (Thrown ''quota'')) (Fulfilled ''17:15'')))) = None
   \<and> field ''airQuality'' (JSON_parse (body (aggregate (Fulfilled ''clear'')
                  (Rejected (Thrown ''quota'')) (Fulfilled ''17:15'')))) = None
   \<and> field ''sunTimes'' (JSON_parse (body (aggregate (Fulfilled ''clear'')
                  (Rejected (Thrown ''quota'')) (Fulfilled ''17:15'')))) = None
   \<and> field ''data'' (JSON_parse (body (aggregate (Fulfilled ''clear'')
                  (Rejected (Thrown ''quota'')) (Fulfilled ''17:15'')))) = None"
  by (simp add: handler_fan_out constant_collaborators_def aggregate_some_rejected)

end
